theory Spec2Isabelle
  imports Main
begin

section \<open>Text\<close>

text \<open>
  A Python \<open>str\<close> is a sequence of Unicode code points; \<open>len\<close> and slicing count code
  points, not bytes.  A string is therefore a list of code points, each a natural number.
  \<open>asc\<close> embeds an ASCII literal.  The few non-ASCII characters of the script are written
  as their code points.
\<close>

type_synonym pystr = "nat list"

definition asc :: "string \<Rightarrow> pystr" where
  "asc s = map of_char s"

definition KEY :: pystr where "KEY = [128273]"            \<comment> \<open>U+1F511, key\<close>
definition CROSS :: pystr where "CROSS = [10060]"         \<comment> \<open>U+274C, cross mark\<close>
definition CHECK :: pystr where "CHECK = [9989]"          \<comment> \<open>U+2705, check mark\<close>
definition PACKAGE :: pystr where "PACKAGE = [128230]"    \<comment> \<open>U+1F4E6, package\<close>
definition ROCKET :: pystr where "ROCKET = [128640]"      \<comment> \<open>U+1F680, rocket\<close>
definition STOPWATCH :: pystr where "STOPWATCH = [9201, 65039]"  \<comment> \<open>U+23F1 U+FE0F\<close>
definition DASH :: pystr where "DASH = [8212]"            \<comment> \<open>U+2014, em dash\<close>
definition NAIRA :: pystr where "NAIRA = [8358]"          \<comment> \<open>U+20A6, naira sign\<close>

text \<open>\<open>str.strip()\<close> removes the characters for which \<open>str.isspace\<close> holds, at both ends.\<close>

definition isspace :: "nat \<Rightarrow> bool" where
  "isspace c \<longleftrightarrow>
     (9 \<le> c \<and> c \<le> 13) \<or> (28 \<le> c \<and> c \<le> 32) \<or> c = 133 \<or> c = 160 \<or> c = 5760 \<or>
     (8192 \<le> c \<and> c \<le> 8202) \<or> c = 8232 \<or> c = 8233 \<or> c = 8239 \<or> c = 8287 \<or> c = 12288"

definition strip :: "pystr \<Rightarrow> pystr" where
  "strip s = rev (dropWhile isspace (rev (dropWhile isspace s)))"

text \<open>\<open>sep.join(parts)\<close>.\<close>

fun join :: "pystr \<Rightarrow> pystr list \<Rightarrow> pystr" where
  "join sep [] = []"
| "join sep [x] = x"
| "join sep (x # y # ys) = x @ sep @ join sep (y # ys)"

text \<open>Decimal digits of a natural number, and \<open>str(n)\<close> for an integer.\<close>

fun dec :: "nat \<Rightarrow> pystr" where
  "dec n = (if n < 10 then [48 + n] else dec (n div 10) @ [48 + n mod 10])"

declare dec.simps [simp del]

definition str_int :: "int \<Rightarrow> pystr" where
  "str_int i = (if i < 0 then 45 # dec (nat (- i)) else dec (nat i))"

text \<open>Lower-case hexadecimal with a fixed number of digits, as \<open>'{0:04x}'.format(n)\<close>.\<close>

definition hexdigit :: "nat \<Rightarrow> nat" where
  "hexdigit d = (if d < 10 then 48 + d else 87 + d)"

definition hex2 :: "nat \<Rightarrow> pystr" where
  "hex2 n = map hexdigit [n div 16 mod 16, n mod 16]"

definition hex4 :: "nat \<Rightarrow> pystr" where
  "hex4 n = map hexdigit [n div 4096 mod 16, n div 256 mod 16, n div 16 mod 16, n mod 16]"

definition hex8 :: "nat \<Rightarrow> pystr" where
  "hex8 n = hex4 (n div 65536 mod 65536) @ hex4 (n mod 65536)"

text \<open>
  Thousands grouping of a natural number, the digits of \<open>format(n, ',')\<close>: groups of three
  from the right, separated by commas.
\<close>

definition pad3 :: "nat \<Rightarrow> pystr" where
  "pad3 m = [48 + m div 100 mod 10, 48 + m div 10 mod 10, 48 + m mod 10]"

fun group3 :: "nat \<Rightarrow> pystr" where
  "group3 n = (if n < 1000 then dec n else group3 (n div 1000) @ 44 # pad3 (n mod 1000))"

declare group3.simps [simp del]

section \<open>JSON values\<close>

text \<open>
  The values \<open>json.loads\<close> returns: \<open>None\<close>, \<open>bool\<close>, \<open>int\<close> (unbounded), \<open>float\<close>,
  \<open>str\<close>, \<open>list\<close> and \<open>dict\<close>.  A \<open>dict\<close> keeps the insertion order of its keys, which the
  script observes when it iterates and when it serialises, so it is an association list
  with distinct keys.  A float is carried as the text of the literal it was read from: the
  binary value it denotes, and everything computed from that value, belongs to the Python
  runtime and enters the model through the parameters below.
\<close>

datatype json =
    JNull
  | JBool bool
  | JInt int
  | JFloat pystr
  | JStr pystr
  | JArr "json list"
  | JObj "(pystr \<times> json) list"

datatype exn =
    JSONDecodeError | KeyError | TypeError | AttributeError | ValueError | OverflowError | OSError

text \<open>
  What the Python runtime contributes and the script does not define: the behaviour of
  floats (given by the literal that denotes them) and the Unicode table behind \<open>repr\<close>.
\<close>

record runtime =
  float_repr :: "pystr \<Rightarrow> pystr"           \<comment> \<open>\<open>repr(x)\<close>, which is \<open>str(x)\<close>\<close>
  float_json :: "pystr \<Rightarrow> pystr"           \<comment> \<open>the text \<open>json.dumps\<close> writes for \<open>x\<close>\<close>
  float_bool :: "pystr \<Rightarrow> bool"            \<comment> \<open>\<open>bool(x)\<close>\<close>
  float_money :: "pystr \<Rightarrow> pystr"          \<comment> \<open>\<open>format(x, ',.0f')\<close>\<close>
  bigint_money :: "int \<Rightarrow> exn + pystr"     \<comment> \<open>\<open>format(n, ',.0f')\<close> beyond \<open>2 ^ 53\<close>\<close>
  printable :: "nat \<Rightarrow> bool"               \<comment> \<open>\<open>chr(c).isprintable()\<close> for \<open>c > 126\<close>\<close>

subsection \<open>Dictionary access\<close>

definition dict_get :: "(pystr \<times> json) list \<Rightarrow> pystr \<Rightarrow> json \<Rightarrow> json" where
  \<comment> \<open>\<open>d.get(k, default)\<close>\<close>
  "dict_get d k dflt = (case map_of d k of None \<Rightarrow> dflt | Some v \<Rightarrow> v)"

definition dict_item :: "(pystr \<times> json) list \<Rightarrow> pystr \<Rightarrow> exn + json" where
  \<comment> \<open>\<open>d[k]\<close>\<close>
  "dict_item d k = (case map_of d k of None \<Rightarrow> Inl KeyError | Some v \<Rightarrow> Inr v)"

fun dict_set :: "pystr \<Rightarrow> json \<Rightarrow> (pystr \<times> json) list \<Rightarrow> (pystr \<times> json) list" where
  \<comment> \<open>\<open>d[k] = v\<close>: a key already present keeps its place\<close>
  "dict_set k v [] = [(k, v)]"
| "dict_set k v ((k', v') # d) = (if k' = k then (k, v) # d else (k', v') # dict_set k v d)"

text \<open>\<open>x.get(k, default)\<close> and \<open>x[k]\<close> on any value, as the script applies them.\<close>

fun get :: "json \<Rightarrow> pystr \<Rightarrow> json \<Rightarrow> exn + json" where
  "get (JObj d) k dflt = Inr (dict_get d k dflt)"
| "get _ k dflt = Inl AttributeError"

fun item :: "json \<Rightarrow> pystr \<Rightarrow> exn + json" where
  "item (JObj d) k = dict_item d k"
| "item _ k = Inl TypeError"

text \<open>
  \<open>x[:n]\<close>: a string and a list are cut to their first \<open>n\<close> items.  Nothing else can be
  sliced (a \<open>dict\<close> raises \<open>TypeError\<close> up to Python 3.11 and \<open>KeyError\<close> from 3.12 on; the
  model says \<open>TypeError\<close>).
\<close>

fun slice_to :: "nat \<Rightarrow> json \<Rightarrow> exn + json" where
  "slice_to n (JStr s) = Inr (JStr (take n s))"
| "slice_to n (JArr xs) = Inr (JArr (take n xs))"
| "slice_to n _ = Inl TypeError"

text \<open>Truth value of a JSON value in a condition.\<close>

fun truthy :: "runtime \<Rightarrow> json \<Rightarrow> bool" where
  "truthy rt JNull = False"
| "truthy rt (JBool b) = b"
| "truthy rt (JInt i) = (i \<noteq> 0)"
| "truthy rt (JFloat x) = float_bool rt x"
| "truthy rt (JStr s) = (s \<noteq> [])"
| "truthy rt (JArr xs) = (xs \<noteq> [])"
| "truthy rt (JObj d) = (d \<noteq> [])"


subsection \<open>Serialising: \<open>json.dumps\<close>\<close>

text \<open>
  \<open>json.dumps(v)\<close> and \<open>json.dumps(v, indent=k)\<close> with the other options at their
  defaults (\<open>ensure_ascii=True\<close>, \<open>allow_nan=True\<close>).  Every character outside printable
  ASCII is escaped; a code point beyond the basic plane becomes a surrogate pair.
\<close>

definition json_escape :: "nat \<Rightarrow> pystr" where
  "json_escape c =
     (if c = 92 then [92, 92]
      else if c = 34 then [92, 34]
      else if c = 8 then [92, 98]
      else if c = 12 then [92, 102]
      else if c = 10 then [92, 110]
      else if c = 13 then [92, 114]
      else if c = 9 then [92, 116]
      else if 32 \<le> c \<and> c \<le> 126 then [c]
      else if c < 65536 then [92, 117] @ hex4 c
      else [92, 117] @ hex4 (55296 + (c - 65536) div 1024 mod 1024) @
           [92, 117] @ hex4 (56320 + (c - 65536) mod 1024))"

definition encode_str :: "pystr \<Rightarrow> pystr" where
  "encode_str s = 34 # concat (map json_escape s) @ [34]"

definition newline_indent :: "nat option \<Rightarrow> nat \<Rightarrow> pystr" where
  "newline_indent ind lvl = (case ind of None \<Rightarrow> [] | Some k \<Rightarrow> 10 # replicate (k * lvl) 32)"

definition item_separator :: "nat option \<Rightarrow> pystr" where
  "item_separator ind = (case ind of None \<Rightarrow> asc '', '' | Some k \<Rightarrow> asc '','')"

fun encode :: "runtime \<Rightarrow> nat option \<Rightarrow> nat \<Rightarrow> json \<Rightarrow> pystr"
  and encode_items :: "runtime \<Rightarrow> nat option \<Rightarrow> nat \<Rightarrow> json list \<Rightarrow> pystr list"
  and encode_members :: "runtime \<Rightarrow> nat option \<Rightarrow> nat \<Rightarrow> (pystr \<times> json) list \<Rightarrow> pystr list"
where
  "encode rt ind lvl JNull = asc ''null''"
| "encode rt ind lvl (JBool b) = (if b then asc ''true'' else asc ''false'')"
| "encode rt ind lvl (JInt i) = str_int i"
| "encode rt ind lvl (JFloat x) = float_json rt x"
| "encode rt ind lvl (JStr s) = encode_str s"
| "encode rt ind lvl (JArr xs) =
     (if xs = [] then asc ''[]''
      else asc ''['' @ newline_indent ind (Suc lvl) @
           join (item_separator ind @ newline_indent ind (Suc lvl))
                (encode_items rt ind (Suc lvl) xs) @
           newline_indent ind lvl @ asc '']'')"
| "encode rt ind lvl (JObj d) =
     (if d = [] then asc ''{}''
      else asc ''{'' @ newline_indent ind (Suc lvl) @
           join (item_separator ind @ newline_indent ind (Suc lvl))
                (encode_members rt ind (Suc lvl) d) @
           newline_indent ind lvl @ asc ''}'')"
| "encode_items rt ind lvl [] = []"
| "encode_items rt ind lvl (x # xs) = encode rt ind lvl x # encode_items rt ind lvl xs"
| "encode_members rt ind lvl [] = []"
| "encode_members rt ind lvl ((k, v) # d) =
     (encode_str k @ asc '': '' @ encode rt ind lvl v) # encode_members rt ind lvl d"

definition json_dumps :: "runtime \<Rightarrow> json \<Rightarrow> pystr" where
  "json_dumps rt v = encode rt None 0 v"

definition json_dumps_indent :: "runtime \<Rightarrow> nat \<Rightarrow> json \<Rightarrow> pystr" where
  "json_dumps_indent rt k v = encode rt (Some k) 0 v"

subsection \<open>Text of a value in an f-string\<close>

text \<open>
  \<open>repr\<close> of a string picks the quote (double quotes only when the string has a single
  quote and no double quote) and escapes the quote, the backslash, control characters and
  the characters the Unicode table calls non-printable.
\<close>

definition repr_escape :: "runtime \<Rightarrow> nat \<Rightarrow> nat \<Rightarrow> pystr" where
  "repr_escape rt q c =
     (if c = q \<or> c = 92 then [92, c]
      else if c = 9 then [92, 116]
      else if c = 10 then [92, 110]
      else if c = 13 then [92, 114]
      else if c < 32 \<or> c = 127 then [92, 120] @ hex2 c
      else if c < 127 then [c]
      else if printable rt c then [c]
      else if c < 256 then [92, 120] @ hex2 c
      else if c < 65536 then [92, 117] @ hex4 c
      else [92, 85] @ hex8 c)"

definition repr_str :: "runtime \<Rightarrow> pystr \<Rightarrow> pystr" where
  "repr_str rt s =
     (let q = (if 39 \<in> set s \<and> 34 \<notin> set s then 34 else 39)
      in q # concat (map (repr_escape rt q) s) @ [q])"

fun py_repr :: "runtime \<Rightarrow> json \<Rightarrow> pystr"
  and repr_items :: "runtime \<Rightarrow> json list \<Rightarrow> pystr list"
  and repr_members :: "runtime \<Rightarrow> (pystr \<times> json) list \<Rightarrow> pystr list"
where
  "py_repr rt JNull = asc ''None''"
| "py_repr rt (JBool b) = (if b then asc ''True'' else asc ''False'')"
| "py_repr rt (JInt i) = str_int i"
| "py_repr rt (JFloat x) = float_repr rt x"
| "py_repr rt (JStr s) = repr_str rt s"
| "py_repr rt (JArr xs) = asc ''['' @ join (asc '', '') (repr_items rt xs) @ asc '']''"
| "py_repr rt (JObj d) = asc ''{'' @ join (asc '', '') (repr_members rt d) @ asc ''}''"
| "repr_items rt [] = []"
| "repr_items rt (x # xs) = py_repr rt x # repr_items rt xs"
| "repr_members rt [] = []"
| "repr_members rt ((k, v) # d) =
     (repr_str rt k @ asc '': '' @ py_repr rt v) # repr_members rt d"

fun py_str :: "runtime \<Rightarrow> json \<Rightarrow> pystr" where
  \<comment> \<open>\<open>f'{v}'\<close>: a string stands for itself, anything else for its \<open>repr\<close>\<close>
  "py_str rt (JStr s) = s"
| "py_str rt v = py_repr rt v"

text \<open>
  \<open>f'{v:,.0f}'\<close>.  An \<open>int\<close> (and a \<open>bool\<close>, which is one) is converted to a float and
  printed with no decimals and with thousands separators; up to \<open>2 ^ 53\<close> in absolute value
  the conversion is exact and the digits are those of the integer.  A string rejects the
  format code; \<open>None\<close>, lists and dicts reject any format specification.
\<close>

fun money :: "runtime \<Rightarrow> json \<Rightarrow> exn + pystr" where
  "money rt (JInt i) =
     (if \<bar>i\<bar> \<le> 2 ^ 53 then Inr ((if i < 0 then [45] else []) @ group3 (nat \<bar>i\<bar>))
      else bigint_money rt i)"
| "money rt (JBool b) = Inr (if b then asc ''1'' else asc ''0'')"
| "money rt (JFloat x) = Inr (float_money rt x)"
| "money rt (JStr s) = Inl ValueError"
| "money rt _ = Inl TypeError"

subsection \<open>Parsing: \<open>json.loads\<close>\<close>

text \<open>
  The decoder of the standard library, as a tokeniser followed by a stack machine.  It
  accepts what \<open>json.loads\<close> accepts with its default options and builds the same value;
  every rejection is a \<open>JSONDecodeError\<close>.  White space (space, tab, line feed, carriage
  return) may separate any two tokens.  The interpreter's resource limits (recursion depth,
  the cap on the digits of an integer literal) are not part of the model.
\<close>

definition starts :: "pystr \<Rightarrow> pystr \<Rightarrow> bool" where
  "starts p cs \<longleftrightarrow> take (length p) cs = p"

definition is_digit :: "nat \<Rightarrow> bool" where
  "is_digit c \<longleftrightarrow> 48 \<le> c \<and> c \<le> 57"

definition hexval :: "nat \<Rightarrow> nat option" where
  "hexval c =
     (if 48 \<le> c \<and> c \<le> 57 then Some (c - 48)
      else if 97 \<le> c \<and> c \<le> 102 then Some (c - 87)
      else if 65 \<le> c \<and> c \<le> 70 then Some (c - 55)
      else None)"

definition hex4val :: "pystr \<Rightarrow> nat option" where
  \<comment> \<open>the four hexadecimal digits of a \<open>\uXXXX\<close> escape\<close>
  "hex4val cs =
     (case map hexval (take 4 cs) of
        [Some a, Some b, Some c, Some d] \<Rightarrow> Some (((a * 16 + b) * 16 + c) * 16 + d)
      | _ \<Rightarrow> None)"

definition unescape :: "nat \<Rightarrow> nat option" where
  "unescape e =
     (if e = 34 \<or> e = 92 \<or> e = 47 then Some e
      else if e = 98 then Some 8
      else if e = 102 then Some 12
      else if e = 110 then Some 10
      else if e = 114 then Some 13
      else if e = 116 then Some 9
      else None)"

definition push :: "nat \<Rightarrow> (pystr \<times> pystr) option \<Rightarrow> (pystr \<times> pystr) option" where
  "push c r = map_option (\<lambda>(s, rest). (c # s, rest)) r"

text \<open>
  \<open>scan_string\<close> reads a string literal from just after its opening quote and returns the
  decoded text and the input after the closing quote.  A raw control character is
  rejected; a high surrogate escape directly followed by a low surrogate escape is one
  character.
\<close>

fun scan_string :: "pystr \<Rightarrow> (pystr \<times> pystr) option" where
  "scan_string [] = None"
| "scan_string (c # cs) =
     (if c = 34 then Some ([], cs)
      else if c = 92 then
        (case cs of
           [] \<Rightarrow> None
         | e # es \<Rightarrow>
             if e = 117 then
               (case hex4val es of
                  None \<Rightarrow> None
                | Some u \<Rightarrow>
                    if 55296 \<le> u \<and> u \<le> 56319 \<and> starts [92, 117] (drop 4 es) then
                      (case hex4val (drop 6 es) of
                         None \<Rightarrow> None
                       | Some u2 \<Rightarrow>
                           if 56320 \<le> u2 \<and> u2 \<le> 57343
                           then push (65536 + (u - 55296) * 1024 + (u2 - 56320))
                                  (scan_string (drop 10 es))
                           else push u (scan_string (drop 4 es)))
                    else push u (scan_string (drop 4 es)))
             else (case unescape e of
                     None \<Rightarrow> None
                   | Some ch \<Rightarrow> push ch (scan_string es)))
      else if c < 32 then None
      else push c (scan_string cs))"

definition digits_val :: "pystr \<Rightarrow> nat" where
  "digits_val ds = foldl (\<lambda>a d. 10 * a + (d - 48)) 0 ds"

text \<open>
  \<open>scan_number\<close> matches \<open>-?(0|[1-9][0-9]*)(\.[0-9]+)?([eE][-+]?[0-9]+)?\<close> at the start of the
  input.  Without fraction and exponent the number is an \<open>int\<close>, otherwise a \<open>float\<close>.
\<close>

definition int_digits :: "pystr \<Rightarrow> pystr" where
  "int_digits r = (if starts [48] r then [48] else takeWhile is_digit r)"

definition frac_part :: "pystr \<Rightarrow> pystr" where
  "frac_part r =
     (if starts [46] r \<and> takeWhile is_digit (tl r) \<noteq> []
      then 46 # takeWhile is_digit (tl r) else [])"

definition exp_part :: "pystr \<Rightarrow> pystr" where
  "exp_part r =
     (if starts [101] r \<or> starts [69] r then
        (let r' = tl r;
             sg = (if starts [43] r' \<or> starts [45] r' then [hd r'] else []);
             ed = takeWhile is_digit (drop (length sg) r')
         in if ed = [] then [] else hd r # sg @ ed)
      else [])"

definition scan_number :: "pystr \<Rightarrow> (json \<times> pystr) option" where
  "scan_number cs =
     (let neg = starts [45] cs;
          r0 = (if neg then tl cs else cs);
          ds = int_digits r0;
          r1 = drop (length ds) r0;
          frac = frac_part r1;
          r2 = drop (length frac) r1;
          ex = exp_part r2;
          rest = drop (length ex) r2
      in if ds = [] then None
         else if frac = [] \<and> ex = []
              then Some (JInt (if neg then - int (digits_val ds) else int (digits_val ds)), rest)
              else Some (JFloat ((if neg then [45] else []) @ ds @ frac @ ex), rest))"

datatype token = TLBrace | TRBrace | TLBrack | TRBrack | TColon | TComma | TAtom json

definition tok :: "token \<Rightarrow> token list option \<Rightarrow> token list option" where
  "tok t r = map_option ((#) t) r"

definition is_ws :: "nat \<Rightarrow> bool" where
  "is_ws c \<longleftrightarrow> c = 32 \<or> c = 9 \<or> c = 10 \<or> c = 13"

definition punct :: "nat \<Rightarrow> token option" where
  "punct c =
     (if c = 123 then Some TLBrace
      else if c = 125 then Some TRBrace
      else if c = 91 then Some TLBrack
      else if c = 93 then Some TRBrack
      else if c = 58 then Some TColon
      else if c = 44 then Some TComma
      else None)"

text \<open>
  A value that is not a string, an array or an object, in the order in which the decoder
  tries them: the three literals, a number, and the constants \<open>NaN\<close>, \<open>Infinity\<close> and
  \<open>-Infinity\<close> that it accepts by default.
\<close>

definition literal :: "pystr \<Rightarrow> (json \<times> pystr) option" where
  "literal cs =
     (if starts (asc ''null'') cs then Some (JNull, drop 4 cs)
      else if starts (asc ''true'') cs then Some (JBool True, drop 4 cs)
      else if starts (asc ''false'') cs then Some (JBool False, drop 5 cs)
      else case scan_number cs of
             Some r \<Rightarrow> Some r
           | None \<Rightarrow>
               if starts (asc ''NaN'') cs then Some (JFloat (asc ''NaN''), drop 3 cs)
               else if starts (asc ''Infinity'') cs
               then Some (JFloat (asc ''Infinity''), drop 8 cs)
               else if starts (asc ''-Infinity'') cs
               then Some (JFloat (asc ''-Infinity''), drop 9 cs)
               else None)"

definition next_token :: "pystr \<Rightarrow> (token \<times> pystr) option" where
  "next_token cs =
     (case cs of
        [] \<Rightarrow> None
      | c # r \<Rightarrow>
          (case punct c of
             Some t \<Rightarrow> Some (t, r)
           | None \<Rightarrow>
               if c = 34
               then map_option (\<lambda>(s, rest). (TAtom (JStr s), rest)) (scan_string r)
               else map_option (\<lambda>(v, rest). (TAtom v, rest)) (literal cs)))"

lemma scan_string_length:
  "scan_string cs = Some (s, rest) \<Longrightarrow> length rest \<le> length cs"
proof (induction "length cs" arbitrary: cs s rest rule: less_induct)
  case less
  have IH: "\<And>xs s'. scan_string xs = Some (s', rest) \<Longrightarrow> length xs < length cs
              \<Longrightarrow> length rest \<le> length xs"
    using less.hyps by blast
  have P: "\<And>c r. push c r = Some (s, rest) \<Longrightarrow> \<exists>s'. r = Some (s', rest)"
    by (auto simp: push_def)
  show ?case
  proof (cases cs)
    case Nil
    with less.prems show ?thesis by simp
  next
    case (Cons c cs')
    from less.prems Cons show ?thesis
      by (auto split: if_splits list.splits option.splits dest!: P IH)
  qed
qed

lemma int_digits_length: "length (int_digits r) \<le> length r"
  by (cases r) (auto simp: int_digits_def starts_def length_takeWhile_le le_SucI)

lemma scan_number_length:
  assumes "scan_number cs = Some (v, rest)"
  shows "length rest < length cs"
proof -
  define r0 where "r0 = (if starts [45] cs then tl cs else cs)"
  define ds where "ds = int_digits r0"
  have ne: "ds \<noteq> []"
    using assms unfolding scan_number_def Let_def ds_def r0_def
    by (simp split: if_splits)
  have 1: "length rest \<le> length r0 - length ds"
    using assms unfolding scan_number_def Let_def ds_def r0_def
    by (auto split: if_splits)
  have 2: "length ds \<le> length r0"
    unfolding ds_def by (rule int_digits_length)
  have 3: "length r0 \<le> length cs"
    by (simp add: r0_def)
  from ne have "0 < length ds" by simp
  with 1 2 3 show ?thesis by linarith
qed

lemma starts_drop_length:
  "starts p cs \<Longrightarrow> p \<noteq> [] \<Longrightarrow> 0 < n \<Longrightarrow> length (drop n cs) < length cs"
  by (cases cs) (auto simp: starts_def)

lemma literal_length:
  "literal cs = Some (v, rest) \<Longrightarrow> length rest < length cs"
  unfolding literal_def
  by (auto split: if_splits option.splits
           dest: scan_number_length starts_drop_length simp: asc_def)

lemma next_token_length:
  "next_token cs = Some (t, rest) \<Longrightarrow> length rest < length cs"
  unfolding next_token_def
  by (auto split: list.splits option.splits if_splits
           dest: scan_string_length literal_length)

function tokens :: "pystr \<Rightarrow> token list option" where
  "tokens cs =
     (case dropWhile is_ws cs of
        [] \<Rightarrow> Some []
      | c # r \<Rightarrow>
          (case next_token (c # r) of
             None \<Rightarrow> None
           | Some (t, rest) \<Rightarrow> tok t (tokens rest)))"
  by pat_completeness auto
termination
proof (relation "measure length")
  show "wf (measure length)" by simp
next
  fix cs c r x t rest
  assume d: "dropWhile is_ws cs = c # r" and n: "next_token (c # r) = Some x"
    and x: "(t, rest) = x"
  from n x have 1: "length rest < length (c # r)"
    by (auto dest: next_token_length)
  have 2: "length (dropWhile is_ws cs) \<le> length cs"
    by (rule length_dropWhile_le)
  from 1 2 d show "(rest, cs) \<in> measure length"
    by simp
qed

declare tokens.simps [simp del]

text \<open>
  The stack machine.  A frame is an enclosing array with the items read so far (latest
  first), or an enclosing object with its members so far and the key whose value is being
  read.  A repeated key overwrites the earlier value, as building a \<open>dict\<close> does.
\<close>

datatype frame = FArr "json list" | FObj "(pystr \<times> json) list" pystr

datatype pstate =
    Value "frame list"                               \<comment> \<open>a value must follow\<close>
  | ArrStart "frame list"                            \<comment> \<open>after \<open>[\<close>: a value or \<open>]\<close>\<close>
  | ObjStart "frame list"                            \<comment> \<open>after \<open>{\<close>: a key or \<open>}\<close>\<close>
  | Key "(pystr \<times> json) list" "frame list"          \<comment> \<open>after \<open>,\<close> in an object: a key\<close>
  | Colon "(pystr \<times> json) list" pystr "frame list"  \<comment> \<open>after a key: \<open>:\<close>\<close>
  | After json "frame list"                          \<comment> \<open>a value is complete\<close>

fun open_value :: "frame list \<Rightarrow> token \<Rightarrow> pstate option" where
  "open_value fs (TAtom v) = Some (After v fs)"
| "open_value fs TLBrack = Some (ArrStart fs)"
| "open_value fs TLBrace = Some (ObjStart fs)"
| "open_value fs _ = None"

fun step :: "pstate \<Rightarrow> token \<Rightarrow> pstate option" where
  "step (Value fs) t = open_value fs t"
| "step (ArrStart fs) t =
     (case t of
        TRBrack \<Rightarrow> Some (After (JArr []) fs)
      | _ \<Rightarrow> open_value (FArr [] # fs) t)"
| "step (ObjStart fs) t =
     (case t of
        TRBrace \<Rightarrow> Some (After (JObj []) fs)
      | TAtom (JStr k) \<Rightarrow> Some (Colon [] k fs)
      | _ \<Rightarrow> None)"
| "step (Key d fs) t =
     (case t of
        TAtom (JStr k) \<Rightarrow> Some (Colon d k fs)
      | _ \<Rightarrow> None)"
| "step (Colon d k fs) t =
     (case t of
        TColon \<Rightarrow> Some (Value (FObj d k # fs))
      | _ \<Rightarrow> None)"
| "step (After v []) t = None"
| "step (After v (FArr xs # fs)) t =
     (case t of
        TComma \<Rightarrow> Some (Value (FArr (v # xs) # fs))
      | TRBrack \<Rightarrow> Some (After (JArr (rev (v # xs))) fs)
      | _ \<Rightarrow> None)"
| "step (After v (FObj d k # fs)) t =
     (case t of
        TComma \<Rightarrow> Some (Key (dict_set k v d) fs)
      | TRBrace \<Rightarrow> Some (After (JObj (dict_set k v d)) fs)
      | _ \<Rightarrow> None)"

fun run_tokens :: "pstate \<Rightarrow> token list \<Rightarrow> pstate option" where
  "run_tokens st [] = Some st"
| "run_tokens st (t # ts) = (case step st t of None \<Rightarrow> None | Some st' \<Rightarrow> run_tokens st' ts)"

definition json_loads :: "pystr \<Rightarrow> exn + json" where
  "json_loads s =
     (if starts [65279] s then Inl JSONDecodeError
      else case tokens s of
             None \<Rightarrow> Inl JSONDecodeError
           | Some ts \<Rightarrow>
               (case run_tokens (Value []) ts of
                  Some (After v []) \<Rightarrow> Inr v
                | _ \<Rightarrow> Inl JSONDecodeError))"


section \<open>The script\<close>

text \<open>
  The script is one straight run with no functions of its own.  What it reads from its
  environment is gathered in a record; what it does to its environment (printing a line,
  running a command, writing and reading a file) is a list of effects, in order; how it
  ends is an exit through \<open>sys.exit\<close>, an uncaught exception, or the end of the file.

  The commands and the clock are outside the script, so their results are inputs.
  \<open>subprocess.run\<close> raises when the program cannot be started, which is \<open>None\<close> here.  The
  response file may be absent or unreadable, which is \<open>None\<close> too.  The elapsed time is a
  float; the record holds its rendering with one decimal.  Printing and writing the payload
  file are taken to succeed.
\<close>

record completed =
  returncode :: int
  stdout :: pystr
  stderr :: pystr

record world =
  ssm_result :: "completed option"       \<comment> \<open>\<open>aws ssm get-parameter\<close>\<close>
  now_secs :: int                        \<comment> \<open>\<open>int(time.time())\<close>\<close>
  now_text :: pystr                      \<comment> \<open>\<open>utcnow().strftime("%d/%b/%Y:%H:%M:%S +0000")\<close>\<close>
  now_millis :: int                      \<comment> \<open>\<open>int(time.time() * 1000)\<close>\<close>
  invoke_result :: "completed option"    \<comment> \<open>\<open>aws lambda invoke\<close>\<close>
  elapsed_text :: pystr                  \<comment> \<open>\<open>f"{elapsed:.1f}"\<close>\<close>
  response_file :: "pystr option"        \<comment> \<open>the text of the response file\<close>

datatype effect =
    Print pystr
  | Run "pystr list"
  | Write pystr pystr
  | Read pystr

datatype status = Exit nat | Raised exn

type_synonym 'a run = "effect list \<times> (status + 'a)"

definition ret :: "'a \<Rightarrow> 'a run" where
  "ret a = ([], Inr a)"

definition emit :: "effect \<Rightarrow> unit run" where
  "emit e = ([e], Inr ())"

definition print :: "pystr \<Rightarrow> unit run" where
  "print s = emit (Print s)"

definition stop :: "status \<Rightarrow> 'a run" where
  "stop st = ([], Inl st)"

definition lift :: "exn + 'a \<Rightarrow> 'a run" where
  \<comment> \<open>an expression that may raise; nothing in the script catches it\<close>
  "lift r = (case r of Inl e \<Rightarrow> stop (Raised e) | Inr a \<Rightarrow> ret a)"

definition andthen :: "'a run \<Rightarrow> ('a \<Rightarrow> 'b run) \<Rightarrow> 'b run" where
  "andthen m f =
     (case m of
        (es, Inl st) \<Rightarrow> (es, Inl st)
      | (es, Inr a) \<Rightarrow> (case f a of (es', r) \<Rightarrow> (es @ es', r)))"

definition seq :: "unit run \<Rightarrow> 'a run \<Rightarrow> 'a run" where
  "seq m k = andthen m (\<lambda>_. k)"

definition ok :: "exn + 'a \<Rightarrow> ('a \<Rightarrow> exn + 'b) \<Rightarrow> exn + 'b" where
  \<comment> \<open>evaluation of one subexpression after another\<close>
  "ok r f = (case r of Inl e \<Rightarrow> Inl e | Inr a \<Rightarrow> f a)"

definition effects :: "'a run \<Rightarrow> effect list" where
  "effects r = fst r"

definition printed :: "'a run \<Rightarrow> pystr list" where
  \<comment> \<open>the lines on standard output\<close>
  "printed r = concat (map (\<lambda>e. case e of Print s \<Rightarrow> [s] | _ \<Rightarrow> []) (fst r))"

definition exit_status :: "unit run \<Rightarrow> status" where
  \<comment> \<open>reaching the end of the file is exit status 0\<close>
  "exit_status r = (case snd r of Inl st \<Rightarrow> st | Inr u \<Rightarrow> Exit 0)"

fun exit_code :: "status \<Rightarrow> nat" where
  \<comment> \<open>an uncaught exception ends the interpreter with status 1\<close>
  "exit_code (Exit n) = n"
| "exit_code (Raised e) = 1"

subsection \<open>Fetching the secret (lines 12 to 34)\<close>

definition ssm_command :: "pystr list" where
  "ssm_command =
     [asc ''aws'', asc ''ssm'', asc ''get-parameter'', asc ''--name'',
      asc ''/qshelter/staging/bootstrap-secret'', asc ''--with-decryption'',
      asc ''--query'', asc ''Parameter.Value'', asc ''--output'', asc ''text'']"

definition secret_preview :: "pystr \<Rightarrow> pystr" where
  "secret_preview secret = asc ''   Got secret: '' @ take 5 secret @ asc ''...''"

definition fetch_secret :: "world \<Rightarrow> pystr run" where
  "fetch_secret w =
     seq (print (KEY @ asc '' Fetching bootstrap secret from SSM...''))
    (seq (emit (Run ssm_command))
     (case ssm_result w of
        None \<Rightarrow> stop (Raised OSError)
      | Some result \<Rightarrow>
          (let BOOTSTRAP_SECRET = strip (stdout result)
           in if BOOTSTRAP_SECRET = []
              then seq (print (CROSS @ asc '' Failed to get bootstrap secret''))
                       (stop (Exit 1))
              else seq (print (secret_preview BOOTSTRAP_SECRET))
                       (ret BOOTSTRAP_SECRET))))"

subsection \<open>Building and writing the payload (lines 36 to 79)\<close>

definition body_obj :: json where
  "body_obj = JObj
     [(asc ''propertyServiceUrl'',
         JStr (asc ''https://z32oarlcp7.execute-api.us-east-1.amazonaws.com'')),
      (asc ''mortgageServiceUrl'',
         JStr (asc ''https://el0slr8sg5.execute-api.us-east-1.amazonaws.com'')),
      (asc ''paymentServiceUrl'',
         JStr (asc ''https://cmwxqd18ga.execute-api.us-east-1.amazonaws.com''))]"

definition event :: "runtime \<Rightarrow> pystr \<Rightarrow> world \<Rightarrow> json" where
  "event rt BOOTSTRAP_SECRET w = JObj
     [(asc ''version'', JStr (asc ''2.0'')),
      (asc ''routeKey'', JStr (asc ''ANY /admin/{proxy+}'')),
      (asc ''rawPath'', JStr (asc ''/admin/demo-bootstrap'')),
      (asc ''rawQueryString'', JStr []),
      (asc ''headers'', JObj
         [(asc ''content-type'', JStr (asc ''application/json'')),
          (asc ''x-bootstrap-secret'', JStr BOOTSTRAP_SECRET)]),
      (asc ''requestContext'', JObj
         [(asc ''accountId'', JStr (asc ''anonymous'')),
          (asc ''apiId'', JStr (asc ''1oi4sd5b4i'')),
          (asc ''domainName'', JStr (asc ''1oi4sd5b4i.execute-api.us-east-1.amazonaws.com'')),
          (asc ''domainPrefix'', JStr (asc ''1oi4sd5b4i'')),
          (asc ''http'', JObj
             [(asc ''method'', JStr (asc ''POST'')),
              (asc ''path'', JStr (asc ''/admin/demo-bootstrap'')),
              (asc ''protocol'', JStr (asc ''HTTP/1.1'')),
              (asc ''sourceIp'', JStr (asc ''127.0.0.1'')),
              (asc ''userAgent'', JStr (asc ''test-script''))]),
          (asc ''requestId'', JStr (asc ''test-'' @ str_int (now_secs w))),
          (asc ''routeKey'', JStr (asc ''ANY /admin/{proxy+}'')),
          (asc ''stage'', JStr (asc ''$default'')),
          (asc ''time'', JStr (now_text w)),
          (asc ''timeEpoch'', JInt (now_millis w))]),
      (asc ''body'', JStr (json_dumps rt body_obj)),
      (asc ''isBase64Encoded'', JBool False)]"

definition payload_path :: pystr where
  "payload_path = asc ''/tmp/demo-bootstrap-payload.json''"

definition response_path :: pystr where
  "response_path = asc ''/tmp/demo-bootstrap-response.json''"

definition write_payload :: "runtime \<Rightarrow> pystr \<Rightarrow> world \<Rightarrow> unit run" where
  "write_payload rt BOOTSTRAP_SECRET w =
     seq (emit (Write payload_path (json_dumps rt (event rt BOOTSTRAP_SECRET w))))
         (print (PACKAGE @ asc '' Payload written to '' @ payload_path))"

subsection \<open>Invoking the function (lines 81 to 109)\<close>

definition invoke_command :: "pystr list" where
  "invoke_command =
     [asc ''aws'', asc ''lambda'', asc ''invoke'', asc ''--function-name'',
      asc ''qshelter-user-service-staging-api'', asc ''--payload'',
      asc ''file://'' @ payload_path, asc ''--cli-read-timeout'', asc ''180'',
      response_path]"

definition invoke :: "world \<Rightarrow> completed run" where
  "invoke w =
     seq (print [])
    (seq (print (ROCKET @ asc '' Invoking Lambda directly (bypassing API Gateway 30s limit)...''))
    (seq (print (asc ''   Function: qshelter-user-service-staging-api''))
    (seq (print [])
    (seq (emit (Run invoke_command))
     (case invoke_result w of
        None \<Rightarrow> stop (Raised OSError)
      | Some result \<Rightarrow>
          seq (print (STOPWATCH @ asc ''  Lambda invocation took '' @ elapsed_text w @ asc ''s''))
              (if returncode result \<noteq> 0
               then seq (print (CROSS @ asc '' AWS CLI error: '' @ stderr result))
                        (stop (Exit 1))
               else ret result))))))"

subsection \<open>Inspecting the invocation metadata (lines 111 to 116)\<close>

definition inspect_meta :: "runtime \<Rightarrow> completed \<Rightarrow> unit run" where
  "inspect_meta rt result =
     (let invoke_meta = strip (stdout result)
      in if invoke_meta = [] then ret ()
         else andthen (lift (json_loads invoke_meta)) (\<lambda>meta.
              andthen (lift (get meta (asc ''FunctionError'') JNull)) (\<lambda>flag.
              if truthy rt flag
              then andthen (lift (item meta (asc ''FunctionError''))) (\<lambda>err.
                   print (CROSS @ asc '' Lambda function error: '' @ py_str rt err))
              else ret ())))"

subsection \<open>Parsing the response (lines 118 to 132)\<close>

text \<open>
  \<open>json.loads\<close> takes text; any other value is a \<open>TypeError\<close>.  The \<open>except Exception\<close> of
  the script catches both that and a decoding error.
\<close>

fun loads_value :: "json \<Rightarrow> exn + json" where
  "loads_value (JStr s) = json_loads s"
| "loads_value _ = Inl TypeError"

definition raw_body_line :: "runtime \<Rightarrow> json \<Rightarrow> exn + pystr" where
  \<comment> \<open>\<open>f"Raw body: {body_str[:3000]}"\<close>\<close>
  "raw_body_line rt body_str =
     ok (slice_to 3000 body_str) (\<lambda>cut. Inr (asc ''Raw body: '' @ py_str rt cut))"

definition decode_body :: "runtime \<Rightarrow> json \<Rightarrow> json run" where
  "decode_body rt body_str =
     (case loads_value body_str of
        Inr body \<Rightarrow> ret body
      | Inl e \<Rightarrow>
          andthen (lift (raw_body_line rt body_str)) (\<lambda>line.
          seq (print line) (stop (Exit 1))))"

definition parse_response :: "runtime \<Rightarrow> world \<Rightarrow> json run" where
  "parse_response rt w =
     seq (print [])
    (seq (print (asc ''--- Response ---''))
    (seq (emit (Read response_path))
    (andthen (case response_file w of
                None \<Rightarrow> stop (Raised OSError)
              | Some text \<Rightarrow> lift (json_loads text)) (\<lambda>resp.
     andthen (lift (get resp (asc ''statusCode'') (JStr (asc ''N/A'')))) (\<lambda>status.
     seq (print (asc ''HTTP Status: '' @ py_str rt status))
    (andthen (lift (get resp (asc ''body'') (JStr (asc ''{}'')))) (\<lambda>body_str.
     decode_body rt body_str)))))))"

subsection \<open>Rendering the outcome (lines 134 to 162)\<close>

fun items :: "json \<Rightarrow> exn + (pystr \<times> json) list" where
  \<comment> \<open>\<open>x.items()\<close>\<close>
  "items (JObj d) = Inr d"
| "items _ = Inl AttributeError"

fun py_len :: "json \<Rightarrow> exn + nat" where
  \<comment> \<open>\<open>len(x)\<close>\<close>
  "py_len (JStr s) = Inr (length s)"
| "py_len (JArr xs) = Inr (length xs)"
| "py_len (JObj d) = Inr (length d)"
| "py_len _ = Inl TypeError"

fun py_iter :: "json \<Rightarrow> exn + json list" where
  \<comment> \<open>\<open>for s in x\<close>: the items of a list, the keys of a dict, the characters of a string\<close>
  "py_iter (JStr s) = Inr (map (\<lambda>c. JStr [c]) s)"
| "py_iter (JArr xs) = Inr xs"
| "py_iter (JObj d) = Inr (map (\<lambda>kv. JStr (fst kv)) d)"
| "py_iter _ = Inl TypeError"

definition actor_line :: "runtime \<Rightarrow> json \<Rightarrow> exn + pystr" where
  "actor_line rt actor =
     ok (item actor (asc ''name'')) (\<lambda>name.
     ok (item actor (asc ''email'')) (\<lambda>email.
     ok (item actor (asc ''role'')) (\<lambda>role.
     ok (item actor (asc ''id'')) (\<lambda>ident.
     ok (slice_to 8 ident) (\<lambda>id8.
     Inr (asc ''     '' @ py_str rt name @ asc '' ('' @ py_str rt email @ asc '') '' @ DASH @
          asc '' '' @ py_str rt role @ asc '' '' @ DASH @ asc '' '' @ py_str rt id8 @
          asc ''...''))))))"

definition org_line :: "runtime \<Rightarrow> json \<Rightarrow> exn + pystr" where
  "org_line rt org =
     ok (item org (asc ''name'')) (\<lambda>name.
     ok (item org (asc ''type'')) (\<lambda>type.
     ok (item org (asc ''id'')) (\<lambda>ident.
     ok (slice_to 8 ident) (\<lambda>id8.
     Inr (asc ''     '' @ py_str rt name @ asc '' ('' @ py_str rt type @ asc '') '' @ DASH @
          asc '' '' @ py_str rt id8 @ asc ''...'')))))"

definition property_line :: "runtime \<Rightarrow> json \<Rightarrow> exn + pystr" where
  "property_line rt prop =
     ok (get prop (asc ''title'') JNull) (\<lambda>title.
     ok (get prop (asc ''unitNumber'') JNull) (\<lambda>unit.
     ok (get prop (asc ''price'') (JInt 0)) (\<lambda>price.
     ok (money rt price) (\<lambda>amount.
     Inr (asc ''   Property: '' @ py_str rt title @ asc '' / '' @ py_str rt unit @ asc '' '' @
          DASH @ asc '' '' @ NAIRA @ amount)))))"

definition payment_line :: "runtime \<Rightarrow> json \<Rightarrow> exn + pystr" where
  "payment_line rt pm =
     ok (get pm (asc ''name'') JNull) (\<lambda>name.
     ok (get pm (asc ''phases'') JNull) (\<lambda>phases.
     Inr (asc ''   Payment Method: '' @ py_str rt name @ asc '' ('' @ py_str rt phases @
          asc '' phases)'')))"

definition step_line :: "runtime \<Rightarrow> json \<Rightarrow> exn + pystr" where
  "step_line rt s =
     ok (get s (asc ''detail'') JNull) (\<lambda>flag.
     ok (if truthy rt flag
          then ok (item s (asc ''detail'')) (\<lambda>d. Inr (asc '' '' @ DASH @ asc '' '' @ py_str rt d))
          else Inr []) (\<lambda>detail.
     ok (item s (asc ''step'')) (\<lambda>name.
     Inr (asc ''     '' @ CHECK @ asc '' '' @ py_str rt name @ detail))))"

text \<open>
  A \<open>for\<close> loop that prints one line for each item.  The lines of the items before a
  failing one have been printed when the exception ends the run.
\<close>

fun print_each :: "('a \<Rightarrow> exn + pystr) \<Rightarrow> 'a list \<Rightarrow> unit run" where
  "print_each line [] = ret ()"
| "print_each line (x # xs) =
     andthen (lift (line x)) (\<lambda>l. seq (print l) (print_each line xs))"

definition render_steps :: "runtime \<Rightarrow> json \<Rightarrow> unit run" where
  "render_steps rt steps =
     andthen (lift (py_len steps)) (\<lambda>n.
     seq (print (asc ''   Steps ('' @ dec n @ asc ''):''))
    (andthen (lift (py_iter steps)) (\<lambda>ss.
     print_each (step_line rt) ss)))"

definition render_tenant :: "runtime \<Rightarrow> json \<Rightarrow> unit run" where
  "render_tenant rt body =
     andthen (lift (item body (asc ''tenantId''))) (\<lambda>tenant.
     print (asc ''   Tenant: '' @ py_str rt tenant))"

definition render_actors :: "runtime \<Rightarrow> json \<Rightarrow> unit run" where
  "render_actors rt body =
     seq (print (asc ''   Actors:''))
         (andthen (lift (ok (get body (asc ''actors'') (JObj [])) items)) (\<lambda>actors.
          print_each (\<lambda>kv. actor_line rt (snd kv)) actors))"

definition render_organizations :: "runtime \<Rightarrow> json \<Rightarrow> unit run" where
  "render_organizations rt body =
     seq (print (asc ''   Organizations:''))
         (andthen (lift (ok (get body (asc ''organizations'') (JObj [])) items)) (\<lambda>orgs.
          print_each (\<lambda>kv. org_line rt (snd kv)) orgs))"

definition render_property :: "runtime \<Rightarrow> json \<Rightarrow> unit run" where
  "render_property rt body =
     andthen (lift (get body (asc ''property'') (JObj []))) (\<lambda>prop.
     andthen (lift (property_line rt prop)) print)"

definition render_payment :: "runtime \<Rightarrow> json \<Rightarrow> unit run" where
  "render_payment rt body =
     andthen (lift (get body (asc ''paymentMethod'') (JObj []))) (\<lambda>pm.
     andthen (lift (payment_line rt pm)) print)"

definition render_success :: "runtime \<Rightarrow> json \<Rightarrow> unit run" where
  "render_success rt body =
     seq (print (CHECK @ asc '' SUCCESS''))
    (seq (render_tenant rt body)
    (seq (print [])
    (seq (render_actors rt body)
    (seq (print [])
    (seq (render_organizations rt body)
    (seq (print [])
    (seq (render_property rt body)
    (seq (render_payment rt body)
    (seq (print [])
    (andthen (lift (get body (asc ''steps'') (JArr []))) (render_steps rt)))))))))))"

definition failure_text :: "runtime \<Rightarrow> json \<Rightarrow> pystr" where
  \<comment> \<open>\<open>json.dumps(body, indent=2)[:3000]\<close>\<close>
  "failure_text rt body = take 3000 (json_dumps_indent rt 2 body)"

definition render_failure :: "runtime \<Rightarrow> json \<Rightarrow> unit run" where
  "render_failure rt body =
     seq (print (CROSS @ asc '' FAILED'')) (print (failure_text rt body))"

definition render :: "runtime \<Rightarrow> json \<Rightarrow> unit run" where
  "render rt body =
     andthen (lift (get body (asc ''success'') JNull)) (\<lambda>success.
     if truthy rt success then render_success rt body else render_failure rt body)"

subsection \<open>The whole run\<close>

definition main :: "runtime \<Rightarrow> world \<Rightarrow> unit run" where
  "main rt w =
     andthen (fetch_secret w) (\<lambda>BOOTSTRAP_SECRET.
     seq (write_payload rt BOOTSTRAP_SECRET w)
    (andthen (invoke w) (\<lambda>result.
     seq (inspect_meta rt result)
    (andthen (parse_response rt w) (\<lambda>body.
     render rt body)))))"


section \<open>Sample inputs\<close>

text \<open>
  Concrete inputs on which the results below are evaluated.  None of them involves a
  float, so the float functions of \<open>sample_runtime\<close> are never consulted.
\<close>

definition sample_runtime :: runtime where
  "sample_runtime =
     \<lparr>float_repr = id, float_json = id, float_bool = (\<lambda>x. True), float_money = id,
      bigint_money = (\<lambda>i. Inl OverflowError), printable = (\<lambda>c. True)\<rparr>"

definition blank_world :: world where
  "blank_world =
     \<lparr>ssm_result = Some \<lparr>returncode = 0, stdout = [32, 9, 10], stderr = []\<rparr>,
      now_secs = 0, now_text = [], now_millis = 0, invoke_result = None,
      elapsed_text = [], response_file = None\<rparr>"

definition sample_body :: json where
  "sample_body = JObj
     [(asc ''success'', JBool True),
      (asc ''tenantId'', JStr (asc ''t-1'')),
      (asc ''actors'', JObj []),
      (asc ''organizations'', JObj []),
      (asc ''property'', JObj
         [(asc ''title'', JStr (asc ''Flat A'')),
          (asc ''unitNumber'', JStr (asc ''12B'')),
          (asc ''price'', JInt 500000)]),
      (asc ''paymentMethod'', JObj
         [(asc ''name'', JStr (asc ''Installment'')), (asc ''phases'', JInt 3)]),
      (asc ''steps'', JArr [JObj [(asc ''step'', JStr (asc ''create tenant''))]])]"

definition demo_world :: world where
  "demo_world =
     \<lparr>ssm_result = Some \<lparr>returncode = 0, stdout = asc ''s3cr3t-value'' @ [10], stderr = []\<rparr>,
      now_secs = 1700000000,
      now_text = asc ''14/Nov/2023:22:13:20 +0000'',
      now_millis = 1700000000123,
      invoke_result = Some
        \<lparr>returncode = 0,
         stdout = json_dumps sample_runtime (JObj [(asc ''StatusCode'', JInt 200)]) @ [10],
         stderr = []\<rparr>,
      elapsed_text = asc ''12.3'',
      response_file = Some (json_dumps sample_runtime (JObj
         [(asc ''statusCode'', JInt 200),
          (asc ''body'', JStr (json_dumps sample_runtime sample_body))]))\<rparr>"







definition short_secret_world :: world where
  "short_secret_world =
     demo_world\<lparr>ssm_result :=
       Some \<lparr>returncode = 0, stdout = asc ''abc'' @ [10], stderr = []\<rparr>\<rparr>"


section \<open>Sequencing\<close>

lemma andthen_Inr: "andthen (es, Inr a) f = (es @ fst (f a), snd (f a))"
  by (simp add: andthen_def split: prod.splits)

lemma andthen_Inl: "andthen (es, Inl st) f = (es, Inl st)"
  by (simp add: andthen_def)

lemma seq_Inr: "seq (es, Inr u) k = (es @ fst k, snd k)"
  by (simp add: seq_def andthen_Inr)

lemma seq_Inl: "seq (es, Inl st) k = (es, Inl st)"
  by (simp add: seq_def andthen_Inl)

lemmas run_simps =
  andthen_Inr andthen_Inl seq_Inr seq_Inl print_def emit_def ret_def stop_def lift_def ok_def

text \<open>The equations that evaluate the model on a concrete input.\<close>

lemmas json_loads_eval =
  json_loads_def starts_def tokens.simps tok_def push_def is_ws_def punct_def next_token_def
  literal_def scan_number_def int_digits_def frac_part_def exp_part_def is_digit_def
  digits_val_def hex4val_def hexval_def unescape_def Let_def

lemmas json_dumps_eval =
  json_dumps_def json_dumps_indent_def encode_str_def json_escape_def item_separator_def
  newline_indent_def

lemmas text_eval =
  asc_def KEY_def CROSS_def CHECK_def PACKAGE_def ROCKET_def STOPWATCH_def DASH_def NAIRA_def
  str_int_def dec.simps group3.simps pad3_def

lemmas render_eval =
  render_def render_success_def render_failure_def render_tenant_def render_actors_def
  render_organizations_def render_property_def render_payment_def render_steps_def
  actor_line_def org_line_def property_line_def payment_line_def step_line_def
  dict_get_def dict_item_def failure_text_def

section \<open>The stages\<close>

lemma strip_blank: "(\<forall>c\<in>set s. isspace c) \<Longrightarrow> strip s = []"
proof -
  assume "\<forall>c\<in>set s. isspace c"
  then have d: "dropWhile isspace s = []" by (induction s) auto
  show ?thesis unfolding strip_def d by simp
qed

lemma fetch_secret_ok:
  "ssm_result w = Some r \<Longrightarrow> strip (stdout r) \<noteq> [] \<Longrightarrow>
   fetch_secret w =
     ([Print (KEY @ asc '' Fetching bootstrap secret from SSM...''), Run ssm_command,
       Print (secret_preview (strip (stdout r)))], Inr (strip (stdout r)))"
  by (simp add: fetch_secret_def Let_def run_simps)

lemma fetch_secret_blank:
  "ssm_result w = Some r \<Longrightarrow> strip (stdout r) = [] \<Longrightarrow>
   fetch_secret w =
     ([Print (KEY @ asc '' Fetching bootstrap secret from SSM...''), Run ssm_command,
       Print (CROSS @ asc '' Failed to get bootstrap secret'')], Inl (Exit 1))"
  by (simp add: fetch_secret_def Let_def run_simps)

lemma write_payload_run:
  "write_payload rt s w =
     ([Write payload_path (json_dumps rt (event rt s w)),
       Print (PACKAGE @ asc '' Payload written to '' @ payload_path)], Inr ())"
  by (simp add: write_payload_def run_simps)

lemma invoke_ok:
  "invoke_result w = Some r \<Longrightarrow> returncode r = 0 \<Longrightarrow>
   invoke w =
     ([Print [],
       Print (ROCKET @ asc '' Invoking Lambda directly (bypassing API Gateway 30s limit)...''),
       Print (asc ''   Function: qshelter-user-service-staging-api''),
       Print [],
       Run invoke_command,
       Print (STOPWATCH @ asc ''  Lambda invocation took '' @ elapsed_text w @ asc ''s'')],
      Inr r)"
  by (simp add: invoke_def run_simps)

lemma main_reaches_meta:
  assumes "ssm_result w = Some r1" and "strip (stdout r1) \<noteq> []"
    and "invoke_result w = Some r2" and "returncode r2 = 0"
  shows "main rt w =
     (effects (fetch_secret w) @ effects (write_payload rt (strip (stdout r1)) w) @
      effects (invoke w) @
      fst (seq (inspect_meta rt r2) (andthen (parse_response rt w) (render rt))),
      snd (seq (inspect_meta rt r2) (andthen (parse_response rt w) (render rt))))"
  unfolding main_def fetch_secret_ok[OF assms(1,2)] invoke_ok[OF assms(3,4)]
    write_payload_run effects_def
  by (simp add: run_simps)

lemma main_reaches_response:
  assumes "ssm_result w = Some r1" and "strip (stdout r1) \<noteq> []"
    and "invoke_result w = Some r2" and "returncode r2 = 0"
    and "snd (inspect_meta rt r2) = Inr ()"
  shows "main rt w =
     (effects (fetch_secret w) @ effects (write_payload rt (strip (stdout r1)) w) @
      effects (invoke w) @ effects (inspect_meta rt r2) @
      fst (andthen (parse_response rt w) (render rt)),
      snd (andthen (parse_response rt w) (render rt)))"
proof -
  have "inspect_meta rt r2 = (effects (inspect_meta rt r2), Inr ())"
    using assms(5) by (simp add: effects_def prod_eq_iff)
  then have "seq (inspect_meta rt r2) (andthen (parse_response rt w) (render rt)) =
       (effects (inspect_meta rt r2) @ fst (andthen (parse_response rt w) (render rt)),
        snd (andthen (parse_response rt w) (render rt)))"
    by (metis seq_Inr)
  then show ?thesis
    unfolding main_reaches_meta[OF assms(1-4)] by simp
qed






lemma decode_body_valid:
  "json_loads s = Inr body \<Longrightarrow> decode_body rt (JStr s) = ([], Inr body)"
  by (simp add: decode_body_def run_simps)

lemma parse_response_dict:
  assumes "response_file w = Some text" and "json_loads text = Inr (JObj d)"
  shows "parse_response rt w =
     ([Print [], Print (asc ''--- Response ---''), Read response_path,
       Print (asc ''HTTP Status: '' @ py_str rt (dict_get d (asc ''statusCode'') (JStr (asc ''N/A''))))]
      @ fst (decode_body rt (dict_get d (asc ''body'') (JStr (asc ''{}'')))),
      snd (decode_body rt (dict_get d (asc ''body'') (JStr (asc ''{}'')))))"
  using assms by (simp add: parse_response_def run_simps)

lemma demo_meta_passes:
  "inspect_meta sample_runtime
     \<lparr>returncode = 0,
      stdout = json_dumps sample_runtime (JObj [(asc ''StatusCode'', JInt 200)]) @ [10],
      stderr = []\<rparr> = ([], Inr ())"
  by (simp add: inspect_meta_def json_dumps_eval strip_def isspace_def json_loads_eval
      text_eval run_simps dict_get_def)






lemma printed_pair: "printed (es, r) = concat (map (\<lambda>e. case e of Print s \<Rightarrow> [s] | _ \<Rightarrow> []) es)"
  by (simp add: printed_def)



section \<open>A complete run\<close>

text \<open>
  A complete run on \<open>demo_world\<close>: the secret is fetched, the function answers with
  the sample body, and the summary is printed.
\<close>

lemma demo_response_decodes:
  "json_loads (json_dumps sample_runtime (JObj
         [(asc ''statusCode'', JInt 200),
          (asc ''body'', JStr (json_dumps sample_runtime sample_body))])) =
   Inr (JObj [(asc ''statusCode'', JInt 200),
          (asc ''body'', JStr (json_dumps sample_runtime sample_body))])"
  by (simp add: sample_body_def json_dumps_eval json_loads_eval text_eval)

lemma demo_body_decodes:
  "json_loads (json_dumps sample_runtime sample_body) = Inr sample_body"
  by (simp add: sample_body_def json_dumps_eval json_loads_eval text_eval)

lemma demo_run:
  "printed (main sample_runtime demo_world) =
     [KEY @ asc '' Fetching bootstrap secret from SSM...'',
      asc ''   Got secret: s3cr3...'',
      PACKAGE @ asc '' Payload written to /tmp/demo-bootstrap-payload.json'',
      [],
      ROCKET @ asc '' Invoking Lambda directly (bypassing API Gateway 30s limit)...'',
      asc ''   Function: qshelter-user-service-staging-api'',
      [],
      STOPWATCH @ asc ''  Lambda invocation took 12.3s'',
      [],
      asc ''--- Response ---'',
      asc ''HTTP Status: 200'',
      CHECK @ asc '' SUCCESS'',
      asc ''   Tenant: t-1'',
      [],
      asc ''   Actors:'',
      [],
      asc ''   Organizations:'',
      [],
      asc ''   Property: Flat A / 12B '' @ DASH @ asc '' '' @ NAIRA @ asc ''500,000'',
      asc ''   Payment Method: Installment (3 phases)'',
      [],
      asc ''   Steps (1):'',
      asc ''     '' @ CHECK @ asc '' create tenant'']
   \<and> exit_status (main sample_runtime demo_world) = Exit 0"
proof -
  let ?r1 = "\<lparr>returncode = 0, stdout = asc ''s3cr3t-value'' @ [10], stderr = []\<rparr>"
  let ?r2 = "\<lparr>returncode = 0,
      stdout = json_dumps sample_runtime (JObj [(asc ''StatusCode'', JInt 200)]) @ [10],
      stderr = []\<rparr>"
  let ?d = "[(asc ''statusCode'', JInt 200),
          (asc ''body'', JStr (json_dumps sample_runtime sample_body))]"
  have a1: "ssm_result demo_world = Some ?r1" by (simp add: demo_world_def)
  have a2: "strip (stdout ?r1) \<noteq> []" by (simp add: strip_def isspace_def asc_def)
  have s: "strip (asc ''s3cr3t-value'' @ [10]) = asc ''s3cr3t-value''"
    by (simp add: strip_def isspace_def asc_def)
  have a3: "invoke_result demo_world = Some ?r2" by (simp add: demo_world_def)
  have a4: "returncode ?r2 = 0" by simp
  have a5: "snd (inspect_meta sample_runtime ?r2) = Inr ()" by (simp add: demo_meta_passes)
  have a6: "response_file demo_world = Some (json_dumps sample_runtime (JObj ?d))"
    by (simp add: demo_world_def)
  have g: "dict_get ?d (asc ''body'') (JStr (asc ''{}'')) = JStr (json_dumps sample_runtime sample_body)"
    by (simp add: dict_get_def asc_def)
  have h: "py_str sample_runtime (dict_get ?d (asc ''statusCode'') (JStr (asc ''N/A''))) = asc ''200''"
    by (simp add: dict_get_def text_eval)
  have e: "elapsed_text demo_world = asc ''12.3''" by (simp add: demo_world_def)
  have p: "parse_response sample_runtime demo_world =
     ([Print [], Print (asc ''--- Response ---''), Read response_path,
       Print (asc ''HTTP Status: '' @ asc ''200'')], Inr sample_body)"
    unfolding parse_response_dict[OF a6 demo_response_decodes] g
      decode_body_valid[OF demo_body_decodes] h by simp
  have r: "render sample_runtime sample_body =
     ([Print (CHECK @ asc '' SUCCESS''),
       Print (asc ''   Tenant: t-1''),
       Print [],
       Print (asc ''   Actors:''),
       Print [],
       Print (asc ''   Organizations:''),
       Print [],
       Print (asc ''   Property: Flat A / 12B '' @ DASH @ asc '' '' @ NAIRA @ asc ''500,000''),
       Print (asc ''   Payment Method: Installment (3 phases)''),
       Print [],
       Print (asc ''   Steps (1):''),
       Print (asc ''     '' @ CHECK @ asc '' create tenant'')],
      Inr ())"
    by (simp add: sample_body_def render_eval run_simps text_eval)
  show ?thesis
    unfolding main_reaches_response[OF a1 a2 a3 a4 a5] p
    by (simp add: run_simps r printed_pair effects_def
        fetch_secret_ok[OF a1 a2] write_payload_run invoke_ok[OF a3 a4] demo_meta_passes
        exit_status_def secret_preview_def s e payload_path_def)
       (simp add: asc_def)
qed

section \<open>Claims\<close>

text \<open>
  C1.  For the decoded response body
  \<open>{"success": true, "tenantId": "t-1", "actors": {}, "organizations": {}, "property":
  {"title": "Flat A", "unitNumber": "12B", "price": 500000}, "paymentMethod": {"name":
  "Installment", "phases": 3}, "steps": [{"step": "create tenant"}]}\<close> rendering prints
  exactly twelve lines, among them the line \<open>Tenant: t-1\<close>, the property line with
  \<open>Flat A / 12B\<close> and the price \<open>500,000\<close>, and a steps section of one header and one step
  line, \<open>create tenant\<close>, with nothing after the name; it raises nothing.
\<close>

theorem sample_success_rendering:
  "render rt sample_body =
     ([Print (CHECK @ asc '' SUCCESS''),
       Print (asc ''   Tenant: t-1''),
       Print [],
       Print (asc ''   Actors:''),
       Print [],
       Print (asc ''   Organizations:''),
       Print [],
       Print (asc ''   Property: Flat A / 12B '' @ DASH @ asc '' '' @ NAIRA @ asc ''500,000''),
       Print (asc ''   Payment Method: Installment (3 phases)''),
       Print [],
       Print (asc ''   Steps (1):''),
       Print (asc ''     '' @ CHECK @ asc '' create tenant'')],
      Inr ())"
  by (simp add: sample_body_def render_eval run_simps text_eval)

text \<open>
  C2.  When the secret-fetch command returns text that is not blank, the secret is that text
  with the white space at its ends removed; the payload file written by the run is the
  serialised envelope built from that secret, and the envelope's header mapping holds
  exactly \<open>content-type: application/json\<close> and the secret, unchanged, under
  \<open>x-bootstrap-secret\<close>.
\<close>

theorem secret_header_exact:
  assumes "ssm_result w = Some r" and "strip (stdout r) \<noteq> []"
  shows "snd (fetch_secret w) = Inr (strip (stdout r))
     \<and> Write payload_path (json_dumps rt (event rt (strip (stdout r)) w))
          \<in> set (effects (main rt w))
     \<and> get (event rt (strip (stdout r)) w) (asc ''headers'') JNull =
          Inr (JObj [(asc ''content-type'', JStr (asc ''application/json'')),
                     (asc ''x-bootstrap-secret'', JStr (strip (stdout r)))])"
proof -
  have 1: "snd (fetch_secret w) = Inr (strip (stdout r))"
    by (simp add: fetch_secret_ok[OF assms])
  have "main rt w =
      andthen (fetch_secret w) (\<lambda>s. seq (write_payload rt s w)
        (andthen (invoke w) (\<lambda>result. seq (inspect_meta rt result)
          (andthen (parse_response rt w) (\<lambda>body. render rt body)))))"
    by (simp add: main_def)
  then have 2: "Write payload_path (json_dumps rt (event rt (strip (stdout r)) w))
          \<in> set (effects (main rt w))"
    by (simp add: fetch_secret_ok[OF assms] write_payload_run run_simps effects_def)
  have 3: "get (event rt (strip (stdout r)) w) (asc ''headers'') JNull =
          Inr (JObj [(asc ''content-type'', JStr (asc ''application/json'')),
                     (asc ''x-bootstrap-secret'', JStr (strip (stdout r)))])"
    by (simp add: event_def dict_get_def asc_def)
  from 1 2 3 show ?thesis by simp
qed

theorem secret_header_exact_witness:
  "strip (asc ''s3cr3t-value'' @ [10]) = asc ''s3cr3t-value''
   \<and> snd (fetch_secret demo_world) = Inr (asc ''s3cr3t-value'')
   \<and> get (event sample_runtime (asc ''s3cr3t-value'') demo_world) (asc ''headers'') JNull =
        Inr (JObj [(asc ''content-type'', JStr (asc ''application/json'')),
                   (asc ''x-bootstrap-secret'', JStr (asc ''s3cr3t-value''))])"
proof -
  have s: "strip (asc ''s3cr3t-value'' @ [10]) = asc ''s3cr3t-value''"
    by (simp add: strip_def isspace_def asc_def)
  have a: "ssm_result demo_world =
      Some \<lparr>returncode = 0, stdout = asc ''s3cr3t-value'' @ [10], stderr = []\<rparr>"
    by (simp add: demo_world_def)
  have b: "strip (stdout \<lparr>returncode = 0, stdout = asc ''s3cr3t-value'' @ [10], stderr = []\<rparr>)
      \<noteq> []"
    by (simp add: strip_def isspace_def asc_def)
  from secret_header_exact[OF a b, of sample_runtime] s show ?thesis
    by simp
qed


text \<open>
  C4.  When the text returned by the secret-fetch command is empty or consists only of
  white space, the run prints the failure line and exits with status 1; it writes no
  payload file and never runs the invocation command.
\<close>

theorem blank_secret_aborts:
  assumes "ssm_result w = Some r" and "\<forall>c\<in>set (stdout r). isspace c"
  shows "main rt w =
           ([Print (KEY @ asc '' Fetching bootstrap secret from SSM...''), Run ssm_command,
             Print (CROSS @ asc '' Failed to get bootstrap secret'')], Inl (Exit 1))
         \<and> exit_code (exit_status (main rt w)) \<noteq> 0
         \<and> (\<forall>p t. Write p t \<notin> set (effects (main rt w)))
         \<and> Run invoke_command \<notin> set (effects (main rt w))"
proof -
  have "strip (stdout r) = []" using assms(2) by (rule strip_blank)
  then have f: "fetch_secret w =
     ([Print (KEY @ asc '' Fetching bootstrap secret from SSM...''), Run ssm_command,
       Print (CROSS @ asc '' Failed to get bootstrap secret'')], Inl (Exit 1))"
    using assms(1) by (simp add: fetch_secret_blank)
  have m: "main rt w =
     ([Print (KEY @ asc '' Fetching bootstrap secret from SSM...''), Run ssm_command,
       Print (CROSS @ asc '' Failed to get bootstrap secret'')], Inl (Exit 1))"
    unfolding main_def f by (rule andthen_Inl)
  have ne: "invoke_command \<noteq> ssm_command"
    by (simp add: invoke_command_def ssm_command_def asc_def)
  show ?thesis
    unfolding m by (simp add: exit_status_def effects_def ne)
qed

theorem blank_secret_aborts_witness:
  "ssm_result blank_world = Some \<lparr>returncode = 0, stdout = [32, 9, 10], stderr = []\<rparr>
   \<and> isspace 32 \<and> isspace 9 \<and> isspace 10
   \<and> exit_code (exit_status (main sample_runtime blank_world)) = 1"
proof -
  have a: "ssm_result blank_world = Some \<lparr>returncode = 0, stdout = [32, 9, 10], stderr = []\<rparr>"
    by (simp add: blank_world_def)
  have b: "\<forall>c\<in>set (stdout \<lparr>returncode = 0, stdout = [32, 9, 10], stderr = []\<rparr>). isspace c"
    by (simp add: isspace_def)
  from blank_secret_aborts[OF a b, of sample_runtime] a show ?thesis
    by (simp add: exit_status_def isspace_def)
qed








text \<open>
  C8.  As stated the claim fails for a secret of five characters or fewer: the preview
  shows all of it.  With the secret \<open>abc\<close> the run prints \<open>Got secret: abc...\<close>.
\<close>

theorem short_secret_shown_whole:
  "snd (fetch_secret short_secret_world) = Inr (asc ''abc'')
   \<and> printed (fetch_secret short_secret_world) =
        [KEY @ asc '' Fetching bootstrap secret from SSM...'',
         asc ''   Got secret: '' @ asc ''abc'' @ asc ''...'']"
proof -
  have a: "ssm_result short_secret_world =
      Some \<lparr>returncode = 0, stdout = asc ''abc'' @ [10], stderr = []\<rparr>"
    by (simp add: short_secret_world_def)
  have s: "strip (asc ''abc'' @ [10]) = asc ''abc''"
    by (simp add: strip_def isspace_def asc_def)
  have b: "strip (stdout \<lparr>returncode = 0, stdout = asc ''abc'' @ [10], stderr = []\<rparr>) \<noteq> []"
    by (simp add: strip_def isspace_def asc_def)
  show ?thesis
    unfolding fetch_secret_ok[OF a b]
    by (simp add: printed_pair secret_preview_def s) (simp add: asc_def)
qed

text \<open>
  C8, amended.  For a non-empty secret the preview line is \<open>Got secret: \<close>, the first five
  characters of the secret (the whole secret when it has no more than five), and \<open>...\<close>.
  Nothing else that the run prints depends on the secret: with everything else in the
  environment the same, two non-empty secrets that agree on their first five characters
  give the same printed lines and the same exit status.
\<close>

theorem preview_depends_on_prefix:
  assumes "ssm_result w = Some r" and "strip (stdout r) \<noteq> []"
    and "strip out' \<noteq> []" and "take 5 (strip out') = take 5 (strip (stdout r))"
  shows "printed (fetch_secret w) =
           [KEY @ asc '' Fetching bootstrap secret from SSM...'',
            asc ''   Got secret: '' @ take 5 (strip (stdout r)) @ asc ''...'']
     \<and> printed (main rt (w\<lparr>ssm_result := Some (r\<lparr>stdout := out'\<rparr>)\<rparr>)) = printed (main rt w)
     \<and> exit_status (main rt (w\<lparr>ssm_result := Some (r\<lparr>stdout := out'\<rparr>)\<rparr>)) =
         exit_status (main rt w)"
proof -
  let ?w' = "w\<lparr>ssm_result := Some (r\<lparr>stdout := out'\<rparr>)\<rparr>"
  let ?K = "\<lambda>w. andthen (invoke w) (\<lambda>result. seq (inspect_meta rt result)
              (andthen (parse_response rt w) (\<lambda>body. render rt body)))"
  have a': "ssm_result ?w' = Some (r\<lparr>stdout := out'\<rparr>)" by simp
  have b': "strip (stdout (r\<lparr>stdout := out'\<rparr>)) \<noteq> []" using assms(3) by simp
  have i: "invoke ?w' = invoke w"
    by (simp add: invoke_def cong: option.case_cong)
  have q: "parse_response rt ?w' = parse_response rt w"
    by (simp add: parse_response_def)
  have k: "?K ?w' = ?K w"
    by (simp only: i q)
  have m: "main rt w =
      (effects (fetch_secret w) @ effects (write_payload rt (strip (stdout r)) w) @ fst (?K w),
       snd (?K w))"
    unfolding main_def fetch_secret_ok[OF assms(1,2)] write_payload_run
    by (simp add: run_simps effects_def)
  have m': "main rt ?w' =
      (effects (fetch_secret ?w') @ effects (write_payload rt (strip out') ?w') @ fst (?K w),
       snd (?K w))"
    unfolding main_def fetch_secret_ok[OF a' b'] write_payload_run k
    by (simp add: run_simps effects_def)
  have p: "secret_preview (strip out') = secret_preview (strip (stdout r))"
    by (simp add: secret_preview_def assms(4))
  have 1: "printed (fetch_secret w) =
           [KEY @ asc '' Fetching bootstrap secret from SSM...'',
            asc ''   Got secret: '' @ take 5 (strip (stdout r)) @ asc ''...'']"
    unfolding fetch_secret_ok[OF assms(1,2)] by (simp add: printed_pair secret_preview_def)
  have 2: "printed (main rt ?w') = printed (main rt w)"
    unfolding m m'
    by (simp add: printed_pair effects_def fetch_secret_ok[OF assms(1,2)]
        fetch_secret_ok[OF a' b'] write_payload_run p del: world.simps completed.simps)
  have 3: "exit_status (main rt ?w') = exit_status (main rt w)"
    unfolding m m' by (simp add: exit_status_def)
  from 1 2 3 show ?thesis by blast
qed

theorem preview_depends_on_prefix_witness:
  "take 5 (strip (asc ''s3cr3-other'' @ [10])) = take 5 (strip (asc ''s3cr3t-value'' @ [10]))
   \<and> strip (asc ''s3cr3-other'' @ [10]) \<noteq> strip (asc ''s3cr3t-value'' @ [10])
   \<and> printed (main sample_runtime
        (demo_world\<lparr>ssm_result :=
           Some \<lparr>returncode = 0, stdout = asc ''s3cr3-other'' @ [10], stderr = []\<rparr>\<rparr>)) =
      printed (main sample_runtime demo_world)"
proof -
  let ?r = "\<lparr>returncode = 0, stdout = asc ''s3cr3t-value'' @ [10], stderr = []\<rparr>"
  have a: "ssm_result demo_world = Some ?r"
    by (simp add: demo_world_def)
  have s1: "strip (asc ''s3cr3t-value'' @ [10]) = asc ''s3cr3t-value''"
    by (simp add: strip_def isspace_def asc_def)
  have s2: "strip (asc ''s3cr3-other'' @ [10]) = asc ''s3cr3-other''"
    by (simp add: strip_def isspace_def asc_def)
  have b: "strip (stdout ?r) \<noteq> []"
    by (simp add: s1) (simp add: asc_def)
  have c: "strip (asc ''s3cr3-other'' @ [10]) \<noteq> []"
    by (simp add: s2) (simp add: asc_def)
  have d: "take 5 (strip (asc ''s3cr3-other'' @ [10])) = take 5 (strip (stdout ?r))"
    by (simp add: s1 s2) (simp add: asc_def)
  have n: "strip (asc ''s3cr3-other'' @ [10]) \<noteq> strip (asc ''s3cr3t-value'' @ [10])"
    by (simp add: s1 s2) (simp add: asc_def)
  from preview_depends_on_prefix[OF a b c d, of sample_runtime] d n
  show ?thesis by simp
qed







end
